theory Spec2Isabelle
  imports Complex_Main "HOL-Library.Multiset"
begin

section \<open>TheFootballManager: data model\<close>

text \<open>
  The league state of \<^verbatim>\<open>main.py\<close> is the dictionary \<^verbatim>\<open>data\<close> with the two
  lists \<^verbatim>\<open>data['teams']\<close> and \<^verbatim>\<open>data['players']\<close>, shared by reference by the
  three engines, plus the history list each engine owns. Every dictionary with fixed
  keys is a record; the integers of the JSON document are \<open>int\<close>. A Python float is a
  binary double: its value is a rational number, and the type here is \<open>rat\<close>, each
  operation rounding its exact result as the hardware does.
\<close>

record stats =
  goals :: int
  assists :: int
  minutes_played :: int
  shots_on_target :: int

record player =
  name :: string
  team :: string
  age :: int
  rating :: int
  position :: string
  stats :: stats

record team_rec =
  tname :: string
  league_position :: int
  points :: int

record transfer_record =
  tr_player :: string
  from_team :: string
  to_team :: string
  fee :: int
  tr_date :: string

record match_event =
  minute :: int
  etype :: string
  eteam :: string
  scorer :: string
  assist :: string

record match_result =
  home_team :: string
  away_team :: string
  home_goals :: int
  away_goals :: int
  events :: "match_event list"
  mr_date :: string

record state =
  teams :: "team_rec list"
  players :: "player list"
  transfer_history :: "transfer_record list"
  match_history :: "match_result list"

text \<open>
  The exceptions the code can raise. \<open>NotFound m\<close> is the \<^verbatim>\<open>ValueError\<close> whose message
  is \<open>m\<close> followed by \<^verbatim>\<open> not found\<close> (so \<open>m\<close> is \<^verbatim>\<open>Player\<close> or
  \<^verbatim>\<open>Team\<close> and the name asked for, or \<^verbatim>\<open>Team\<close> alone in
  \<^verbatim>\<open>simulate_match\<close>); \<open>NoPlayers n\<close> is
  \<^verbatim>\<open>ValueError("No players found for team n")\<close>; \<open>MaxEmptySequence\<close> is the
  \<^verbatim>\<open>ValueError\<close> that the builtin \<^verbatim>\<open>max\<close> raises on an empty list;
  \<open>ZeroDivisionError\<close> comes from \<^verbatim>\<open>/\<close>, \<open>IndexError\<close> from
  \<^verbatim>\<open>random.choice\<close> on an empty list and \<open>StopIteration\<close> from
  \<^verbatim>\<open>next\<close> without a default.
\<close>

datatype error =
    NotFound string
  | NoPlayers string
  | MaxEmptySequence
  | ZeroDivisionError
  | IndexError
  | StopIteration

section \<open>Python primitives\<close>

text \<open>
  A Python string is here the list of the bytes of its UTF-8 form, so two strings are
  equal exactly when their lists are. \<^verbatim>\<open>str.lower\<close> is a function of the Python
  library, with the case tables of Unicode behind it: the operations below that call it
  take it as their first parameter \<open>lower\<close>, and the theorems about them hold for every
  such function. On a string of ASCII characters \<^verbatim>\<open>str.lower\<close> moves the letters A
  to Z to a to z and keeps the rest: this is \<open>ascii_lower\<close>, which the theorems about
  the small league below use, all of whose names are ASCII.
\<close>

definition ascii_lower_char :: "char \<Rightarrow> char" where
  "ascii_lower_char c =
     (let n = (of_char c :: nat) in if 65 \<le> n \<and> n \<le> 90 then char_of (n + 32) else c)"

definition ascii_lower :: "string \<Rightarrow> string" where
  "ascii_lower s = map ascii_lower_char s"

text \<open>
  Floating point. A double is \<open>m * 2 ^ e\<close> with an integer \<open>m\<close> of at most 53 bits. An
  operation on doubles returns the double nearest to the exact result, the one with the
  even \<open>m\<close> when two are equally near. \<open>ilog2 x\<close> is the exponent of the power of two
  at or below a positive \<open>x\<close>, so \<open>x / 2 ^ (ilog2 x - 52)\<close> has 53 bits before the
  point. The exponent is not bounded here: overflow to infinity and the subnormal
  numbers, beyond \<open>2 ^ 1024\<close> and below \<open>2 ^ - 1022\<close>, are not modelled.
\<close>

function bit_length :: "int \<Rightarrow> int" where
  "bit_length n = (if n \<le> 0 then 0 else 1 + bit_length (n div 2))"
  by pat_completeness auto
termination
  by (relation "measure nat") auto

declare bit_length.simps [simp del]

definition pow2 :: "int \<Rightarrow> rat" where
  "pow2 e = (if 0 \<le> e then 2 ^ nat e else 1 / 2 ^ nat (- e))"

definition ilog2 :: "rat \<Rightarrow> int" where
  "ilog2 x =
     (if 1 \<le> x then bit_length \<lfloor>x\<rfloor> - 1
      else (let k = bit_length \<lfloor>1 / x\<rfloor> - 1
            in if x = pow2 (- k) then - k else - k - 1))"

definition round_half_even :: "rat \<Rightarrow> int" where
  "round_half_even q =
     (let f = \<lfloor>q\<rfloor>; d = q - of_int f
      in if d < 1 / 2 then f else if 1 / 2 < d then f + 1 else if even f then f else f + 1)"

definition round_double :: "rat \<Rightarrow> rat" where
  "round_double x =
     (if x = 0 then 0
      else (let u = pow2 (ilog2 \<bar>x\<bar> - 52) in of_int (round_half_even (x / u)) * u))"

text \<open>
  \<^verbatim>\<open>float(n)\<close> of an integer, which Python applies to the integer operand of a mixed
  operation, and the operations \<^verbatim>\<open>+\<close>, \<^verbatim>\<open>-\<close>, \<^verbatim>\<open>*\<close> and \<^verbatim>\<open>/\<close> (by a
  divisor that is not zero) on floats.
\<close>

definition py_float :: "int \<Rightarrow> rat" where
  "py_float n = round_double (rat_of_int n)"

definition fadd :: "rat \<Rightarrow> rat \<Rightarrow> rat" where
  "fadd a b = round_double (a + b)"

definition fsub :: "rat \<Rightarrow> rat \<Rightarrow> rat" where
  "fsub a b = round_double (a - b)"

definition fmul :: "rat \<Rightarrow> rat \<Rightarrow> rat" where
  "fmul a b = round_double (a * b)"

definition fdiv :: "rat \<Rightarrow> rat \<Rightarrow> rat" where
  "fdiv a b = round_double (a / b)"

text \<open>
  The literals \<^verbatim>\<open>0.05\<close> and \<^verbatim>\<open>1.1\<close> and the product \<^verbatim>\<open>207 / 90 * 100000\<close> as
  Python has them: \<^verbatim>\<open>0.05000000000000000277\<close>, \<^verbatim>\<open>1.100000000000000088\<close> and
  \<^verbatim>\<open>229999.99999999997\<close>.
\<close>

lemma round_double_examples:
  "round_double (5 / 100) = 3602879701896397 / 72057594037927936 \<and>
   round_double (11 / 10) = 2476979795053773 / 2251799813685248 \<and>
   fmul (fdiv 207 90) (py_float 100000) = 7902739824639999 / 34359738368 \<and>
   py_float 100000 = 100000"
  by code_simp

text \<open>\<^verbatim>\<open>int(x)\<close> on a float truncates toward zero.\<close>

definition py_int :: "rat \<Rightarrow> int" where
  "py_int x = (if x < 0 then - \<lfloor>- x\<rfloor> else \<lfloor>x\<rfloor>)"

text \<open>
  True division \<^verbatim>\<open>a / b\<close> of two integers raises on a zero divisor, and is else the
  double nearest to the quotient.
\<close>

definition py_truediv :: "int \<Rightarrow> int \<Rightarrow> error + rat" where
  "py_truediv a b =
     (if b = 0 then Inl ZeroDivisionError else Inr (fdiv (rat_of_int a) (rat_of_int b)))"

text \<open>
  \<^verbatim>\<open>next((x for x in xs if P(x)), None)\<close> is \<^const>\<open>List.find\<close>; the position of
  that first match is needed where the code then mutates the object it found.
\<close>

fun first_index :: "('a \<Rightarrow> bool) \<Rightarrow> 'a list \<Rightarrow> nat option" where
  "first_index P [] = None"
| "first_index P (x # xs) =
     (if P x then Some 0 else map_option Suc (first_index P xs))"

text \<open>
  \<^verbatim>\<open>max(xs, key=f)\<close>: the first element with the greatest key; a
  \<^verbatim>\<open>ValueError\<close> on an empty list.
\<close>

fun max_from :: "('a \<Rightarrow> int) \<Rightarrow> 'a \<Rightarrow> 'a list \<Rightarrow> 'a" where
  "max_from f best [] = best"
| "max_from f best (x # xs) = max_from f (if f best < f x then x else best) xs"

definition py_max :: "('a \<Rightarrow> int) \<Rightarrow> 'a list \<Rightarrow> error + 'a" where
  "py_max f xs = (case xs of [] \<Rightarrow> Inl MaxEmptySequence | x # rest \<Rightarrow> Inr (max_from f x rest))"

section \<open>Valuation engine\<close>

text \<open>
  \<^verbatim>\<open>TransferMarket.calculate_player_value\<close>. It reads the player and writes
  nothing, so it is a function of the player alone.
\<close>

definition calculate_player_value :: "player \<Rightarrow> int" where
  "calculate_player_value p =
     (let base_value = rating p * 2000000;
          age_factor =
            fsub (py_float 1) (fmul (py_float \<bar>26 - age p\<bar>) (round_double (5 / 100)));
          st = stats p;
          performance_factor =
            fadd (py_float (goals st * 500000 + assists st * 300000))
              (fmul (fdiv (rat_of_int (minutes_played st)) 90) (py_float 100000))
      in py_int (fadd (fmul (py_float base_value) age_factor) performance_factor))"

text \<open>
  The value the specification writes down, before its \<open>floor\<close>: first in the four steps
  of its formula, \<open>base\<close>, \<open>age_factor\<close>, \<open>performance\<close> and their combination, in
  floating point; then the same formula in exact arithmetic.
\<close>

definition spec_player_value :: "player \<Rightarrow> rat" where
  "spec_player_value p =
     (let base = py_float (rating p * 2000000);
          age_factor =
            fsub (py_float 1) (fmul (round_double (5 / 100)) (py_float \<bar>26 - age p\<bar>));
          performance =
            fadd (py_float (goals (stats p) * 500000 + assists (stats p) * 300000))
              (fmul (fdiv (rat_of_int (minutes_played (stats p))) 90) (py_float 100000))
      in fadd (fmul base age_factor) performance)"

definition exact_player_value :: "player \<Rightarrow> rat" where
  "exact_player_value p =
     rat_of_int (rating p) * 2000000 * (1 - (5 / 100) * rat_of_int \<bar>26 - age p\<bar>)
       + rat_of_int (goals (stats p)) * 500000
       + rat_of_int (assists (stats p)) * 300000
       + (rat_of_int (minutes_played (stats p)) / 90) * 100000"

text \<open>
  The lookups \<^verbatim>\<open>next((p for p in ... if p['name'].lower() == n.lower()), None)\<close>.
\<close>

definition find_player :: "(string \<Rightarrow> string) \<Rightarrow> state \<Rightarrow> string \<Rightarrow> player option" where
  "find_player lower s n = List.find (\<lambda>p. lower (name p) = lower n) (players s)"

definition find_team :: "(string \<Rightarrow> string) \<Rightarrow> state \<Rightarrow> string \<Rightarrow> team_rec option" where
  "find_team lower s n = List.find (\<lambda>t. lower (tname t) = lower n) (teams s)"

text \<open>
  \<^verbatim>\<open>TransferMarket.transfer_player\<close>. The player found is an object of the list
  \<^verbatim>\<open>data['players']\<close>, changed in place: position \<open>i\<close> of the list here. The
  result pairs what the call returns or raises with the state it leaves; \<open>today\<close> is
  the text of \<^verbatim>\<open>datetime.now().strftime('%Y-%m-%d')\<close>.
\<close>

definition transfer_player ::
  "(string \<Rightarrow> string) \<Rightarrow> state \<Rightarrow> string \<Rightarrow> string \<Rightarrow> string
     \<Rightarrow> (error + transfer_record) \<times> state" where
  "transfer_player lower s player_name new_team today =
     (case first_index (\<lambda>p. lower (name p) = lower player_name) (players s) of
        None \<Rightarrow> (Inl (NotFound (''Player '' @ player_name)), s)
      | Some i \<Rightarrow>
          (case find_team lower s new_team of
             None \<Rightarrow> (Inl (NotFound (''Team '' @ new_team)), s)
           | Some tm \<Rightarrow>
               (let old_team = team (players s ! i);
                    moved = (players s ! i)\<lparr>team := new_team\<rparr>;
                    transfer_fee = calculate_player_value moved;
                    rec = \<lparr>tr_player = name moved, from_team = old_team,
                           to_team = new_team, fee = transfer_fee, tr_date = today\<rparr>
                in (Inr rec,
                    s\<lparr>players := (players s)[i := moved],
                      transfer_history := transfer_history s @ [rec]\<rparr>))))"

section \<open>Match simulation engine\<close>

text \<open>The roster of a team: \<^verbatim>\<open>[p for p in self.data['players'] if p['team'] == team_name]\<close>.\<close>

definition team_players :: "state \<Rightarrow> string \<Rightarrow> player list" where
  "team_players s team_name = filter (\<lambda>p. team p = team_name) (players s)"

definition calculate_team_strength :: "state \<Rightarrow> string \<Rightarrow> error + rat" where
  "calculate_team_strength s team_name =
     (let roster = team_players s team_name in
      if roster = [] then Inl (NoPlayers team_name)
      else py_truediv (sum_list (map rating roster)) (int (length roster)))"

text \<open>
  The random source is a tape of draws, read from position \<open>k\<close> on: one cell for
  each call of \<^verbatim>\<open>random.randint\<close> or \<^verbatim>\<open>random.choice\<close>. Every value
  of the range, and every element of the list, is the result for some cell.
\<close>

type_synonym tape = "nat \<Rightarrow> nat"

definition randint :: "int \<Rightarrow> int \<Rightarrow> nat \<Rightarrow> int" where
  "randint a b d = a + int (d mod nat (b - a + 1))"

definition choice :: "'a list \<Rightarrow> nat \<Rightarrow> error + 'a" where
  "choice xs d = (if xs = [] then Inl IndexError else Inr (xs ! (d mod length xs)))"

text \<open>
  The loop \<^verbatim>\<open>while assist == scorer: assist = random.choice(players)\<close>. The
  comparison is the equality of two dictionaries, field by field. The loop has no bound:
  a run that never leaves it is the value \<open>None\<close>.
\<close>

partial_function (option) redraw_assist ::
  "tape \<Rightarrow> player list \<Rightarrow> player \<Rightarrow> player \<Rightarrow> nat \<Rightarrow> (error + player \<times> nat) option" where
  "redraw_assist tape roster sc ast k =
     (if ast = sc then
        (case choice roster (tape k) of
           Inl e \<Rightarrow> Some (Inl e)
         | Inr a \<Rightarrow> redraw_assist tape roster sc a (Suc k))
      else Some (Inr (ast, k)))"

declare redraw_assist.simps [code]

text \<open>
  One of the two loops \<^verbatim>\<open>for _ in range(goals)\<close> of
  \<^verbatim>\<open>generate_match_events\<close>: the events of one side in the order they are
  appended, and the tape position reached.
\<close>

fun side_goals ::
  "tape \<Rightarrow> string \<Rightarrow> player list \<Rightarrow> nat \<Rightarrow> nat \<Rightarrow> (error + match_event list \<times> nat) option" where
  "side_goals tape tm roster 0 k = Some (Inr ([], k))"
| "side_goals tape tm roster (Suc n) k =
     (let m = randint 1 90 (tape k) in
      case choice roster (tape (k + 1)) of
        Inl e \<Rightarrow> Some (Inl e)
      | Inr sc \<Rightarrow>
          (case choice roster (tape (k + 2)) of
             Inl e \<Rightarrow> Some (Inl e)
           | Inr ast \<Rightarrow>
               (case redraw_assist tape roster sc ast (k + 3) of
                  None \<Rightarrow> None
                | Some (Inl e) \<Rightarrow> Some (Inl e)
                | Some (Inr (ast', k')) \<Rightarrow>
                    (case side_goals tape tm roster n k' of
                       None \<Rightarrow> None
                     | Some (Inl e) \<Rightarrow> Some (Inl e)
                     | Some (Inr (evs, k'')) \<Rightarrow>
                         Some (Inr (\<lparr>minute = m, etype = ''goal'', eteam = tm,
                                      scorer = name sc, assist = name ast'\<rparr> # evs, k''))))))"

text \<open>
  \<^verbatim>\<open>MatchEngine.generate_match_events\<close>. \<open>raw_match_events\<close> is the list
  \<^verbatim>\<open>events\<close> before \<^verbatim>\<open>events.sort(key=lambda x: x['minute'])\<close>; Python's sort
  is stable, as \<^const>\<open>sort_key\<close> is.
\<close>

definition raw_match_events ::
  "state \<Rightarrow> string \<Rightarrow> string \<Rightarrow> int \<Rightarrow> int \<Rightarrow> tape \<Rightarrow> (error + match_event list) option" where
  "raw_match_events s home away hg ag tape =
     (let home_players = team_players s home;
          away_players = team_players s away
      in case side_goals tape home home_players (nat hg) 0 of
           None \<Rightarrow> None
         | Some (Inl e) \<Rightarrow> Some (Inl e)
         | Some (Inr (hs, k)) \<Rightarrow>
             (case side_goals tape away away_players (nat ag) k of
                None \<Rightarrow> None
              | Some (Inl e) \<Rightarrow> Some (Inl e)
              | Some (Inr (as, k')) \<Rightarrow> Some (Inr (hs @ as))))"

definition generate_match_events ::
  "state \<Rightarrow> string \<Rightarrow> string \<Rightarrow> int \<Rightarrow> int \<Rightarrow> tape \<Rightarrow> (error + match_event list) option" where
  "generate_match_events s home away hg ag tape =
     (case raw_match_events s home away hg ag tape of
        None \<Rightarrow> None
      | Some (Inl e) \<Rightarrow> Some (Inl e)
      | Some (Inr evs) \<Rightarrow> Some (Inr (sort_key minute evs)))"

text \<open>
  \<^verbatim>\<open>MatchEngine.update_stats\<close>: the loop over the events, on the list of players.
  \<^verbatim>\<open>next(p for p in ... if p['name'] == ...)\<close> has no default and raises
  \<^verbatim>\<open>StopIteration\<close> when no player has the name; what was written before stays.
\<close>

definition add_goal :: "player \<Rightarrow> player" where
  "add_goal p = p\<lparr>stats := (stats p)\<lparr>goals := goals (stats p) + 1\<rparr>\<rparr>"

definition add_assist :: "player \<Rightarrow> player" where
  "add_assist p = p\<lparr>stats := (stats p)\<lparr>assists := assists (stats p) + 1\<rparr>\<rparr>"

fun update_stats_loop :: "player list \<Rightarrow> match_event list \<Rightarrow> (error + unit) \<times> player list" where
  "update_stats_loop ps [] = (Inr (), ps)"
| "update_stats_loop ps (e # es) =
     (if etype e = ''goal'' then
        (case first_index (\<lambda>p. name p = scorer e) ps of
           None \<Rightarrow> (Inl StopIteration, ps)
         | Some i \<Rightarrow>
             (let ps1 = ps[i := add_goal (ps ! i)] in
              case first_index (\<lambda>p. name p = assist e) ps1 of
                None \<Rightarrow> (Inl StopIteration, ps1)
              | Some j \<Rightarrow> update_stats_loop (ps1[j := add_assist (ps1 ! j)]) es))
      else update_stats_loop ps es)"

definition update_stats :: "state \<Rightarrow> match_result \<Rightarrow> (error + unit) \<times> state" where
  "update_stats s r =
     (case update_stats_loop (players s) (events r) of
        (res, ps) \<Rightarrow> (res, s\<lparr>players := ps\<rparr>))"

text \<open>
  \<^verbatim>\<open>MatchEngine.simulate_match\<close>. \<^verbatim>\<open>random.gauss(mu, sigma)\<close> is
  \<^verbatim>\<open>mu + z * sigma\<close> for a standard normal draw \<open>z\<close>, a float; the two draws of a
  call are the parameters \<open>z_home\<close> and \<open>z_away\<close>.
\<close>

definition gauss :: "rat \<Rightarrow> rat \<Rightarrow> rat \<Rightarrow> rat" where
  "gauss mu sigma z = fadd mu (fmul z sigma)"

definition simulate_match ::
  "(string \<Rightarrow> string) \<Rightarrow> state \<Rightarrow> string \<Rightarrow> string \<Rightarrow> rat \<Rightarrow> rat \<Rightarrow> tape \<Rightarrow> string
     \<Rightarrow> ((error + match_result) \<times> state) option" where
  "simulate_match lower s home_name away_name z_home z_away tape today =
     (case (find_team lower s home_name, find_team lower s away_name) of
        (Some home, Some away) \<Rightarrow>
          (case calculate_team_strength s (tname home) of
             Inl e \<Rightarrow> Some (Inl e, s)
           | Inr hs0 \<Rightarrow>
               (case calculate_team_strength s (tname away) of
                  Inl e \<Rightarrow> Some (Inl e, s)
                | Inr away_strength \<Rightarrow>
                    (let home_strength = fmul hs0 (round_double (11 / 10));
                         hg = max 0 (py_int (gauss (fdiv home_strength (py_float 20))
                                 (py_float 1) z_home));
                         ag = max 0 (py_int (gauss (fdiv away_strength (py_float 20))
                                 (py_float 1) z_away))
                     in case generate_match_events s (tname home) (tname away) hg ag tape of
                          None \<Rightarrow> None
                        | Some (Inl e) \<Rightarrow> Some (Inl e, s)
                        | Some (Inr evs) \<Rightarrow>
                            (let r = \<lparr>home_team = tname home, away_team = tname away,
                                       home_goals = hg, away_goals = ag, events = evs,
                                       mr_date = today\<rparr>;
                                 s1 = s\<lparr>match_history := match_history s @ [r]\<rparr>
                             in case update_stats s1 r of
                                  (Inl e, s2) \<Rightarrow> Some (Inl e, s2)
                                | (Inr u, s2) \<Rightarrow> Some (Inr r, s2)))))
      | _ \<Rightarrow> Some (Inl (NotFound ''Team''), s))"

section \<open>Analytics engine\<close>

record efficiency =
  goals_per_90 :: rat
  assists_per_90 :: rat
  goal_contributions :: int
  shots_conversion :: rat

record team_report =
  rp_team_name :: string
  rp_league_position :: int
  rp_points :: int
  top_scorer :: player
  top_assister :: player
  squad_age_average :: rat
  squad_rating_average :: rat

text \<open>An exception ends the evaluation of the expression it is raised in.\<close>

definition and_then :: "error + 'a \<Rightarrow> ('a \<Rightarrow> error + 'b) \<Rightarrow> error + 'b" where
  "and_then r f = (case r of Inl e \<Rightarrow> Inl e | Inr x \<Rightarrow> f x)"

text \<open>
  \<^verbatim>\<open>Analytics.calculate_player_efficiency\<close>: the entries of the dictionary are
  evaluated in the order they are written.
\<close>

definition calculate_player_efficiency ::
  "(string \<Rightarrow> string) \<Rightarrow> state \<Rightarrow> string \<Rightarrow> error + efficiency" where
  "calculate_player_efficiency lower s player_name =
     (case find_player lower s player_name of
        None \<Rightarrow> Inl (NotFound (''Player '' @ player_name))
      | Some p \<Rightarrow>
          (let st = stats p; minutes = minutes_played st in
           and_then (py_truediv (goals st) minutes) (\<lambda>g.
           and_then (py_truediv (assists st) minutes) (\<lambda>a.
           and_then (if shots_on_target st > 0
                     then and_then (py_truediv (goals st) (shots_on_target st))
                            (\<lambda>q. Inr (fmul q (py_float 100)))
                     else Inr 0) (\<lambda>c.
           Inr \<lparr>goals_per_90 = fmul g (py_float 90), assists_per_90 = fmul a (py_float 90),
                goal_contributions = goals st + assists st,
                shots_conversion = c\<rparr>)))))"

text \<open>\<^verbatim>\<open>Analytics.generate_team_report\<close>.\<close>

definition generate_team_report ::
  "(string \<Rightarrow> string) \<Rightarrow> state \<Rightarrow> string \<Rightarrow> error + team_report" where
  "generate_team_report lower s team_name =
     (case find_team lower s team_name of
        None \<Rightarrow> Inl (NotFound (''Team '' @ team_name))
      | Some tm \<Rightarrow>
          (let roster = team_players s (tname tm);
               n = int (length roster) in
           and_then (py_max (\<lambda>p. goals (stats p)) roster) (\<lambda>ts.
           and_then (py_max (\<lambda>p. assists (stats p)) roster) (\<lambda>ta.
           and_then (py_truediv (sum_list (map age roster)) n) (\<lambda>aa.
           and_then (py_truediv (sum_list (map rating roster)) n) (\<lambda>ra.
           Inr \<lparr>rp_team_name = tname tm, rp_league_position = league_position tm,
                rp_points = points tm, top_scorer = ts, top_assister = ta,
                squad_age_average = aa, squad_rating_average = ra\<rparr>))))))"

section \<open>The handler of the menu loop\<close>

text \<open>
  \<^verbatim>\<open>main\<close> wraps its menu loop in one handler,
  \<^verbatim>\<open>except (FileNotFoundError, ValueError)\<close>, which prints the message and returns.
  The errors the engines raise themselves, and the one of \<^verbatim>\<open>max\<close>, are of class
  \<^verbatim>\<open>ValueError\<close>; any other exception leaves \<^verbatim>\<open>main\<close> with a traceback.
\<close>

fun main_catches :: "error \<Rightarrow> bool" where
  "main_catches (NotFound m) = True"
| "main_catches (NoPlayers n) = True"
| "main_catches MaxEmptySequence = True"
| "main_catches ZeroDivisionError = False"
| "main_catches IndexError = False"
| "main_catches StopIteration = False"

section \<open>Quantities of the specification\<close>

text \<open>
  The sums of the \<^verbatim>\<open>goals\<close> and of the \<^verbatim>\<open>assists\<close> fields over all players, a
  player with these two fields set to zero (what is left is every other field), and the
  goal events of a match result: those of the home team and the others.
\<close>

definition total_goals :: "player list \<Rightarrow> int" where
  "total_goals ps = sum_list (map (\<lambda>p. goals (stats p)) ps)"

definition total_assists :: "player list \<Rightarrow> int" where
  "total_assists ps = sum_list (map (\<lambda>p. assists (stats p)) ps)"

definition clear_tally :: "player \<Rightarrow> player" where
  "clear_tally p = p\<lparr>stats := (stats p)\<lparr>goals := 0, assists := 0\<rparr>\<rparr>"

definition goal_events :: "match_event list \<Rightarrow> match_event list" where
  "goal_events es = filter (\<lambda>e. etype e = ''goal'') es"

definition home_goal_events :: "match_result \<Rightarrow> match_event list" where
  "home_goal_events r = filter (\<lambda>e. eteam e = home_team r) (goal_events (events r))"

definition away_goal_events :: "match_result \<Rightarrow> match_event list" where
  "away_goal_events r = filter (\<lambda>e. eteam e \<noteq> home_team r) (goal_events (events r))"

section \<open>A small league\<close>

text \<open>The concrete data the closed theorems below are evaluated on.\<close>

definition veteran :: player where
  "veteran = \<lparr>name = ''V'', team = ''Blue FC'', age = 66, rating = 1, position = ''GK'',
     stats = \<lparr>goals = 0, assists = 0, minutes_played = 1, shots_on_target = 0\<rparr>\<rparr>"

definition player_a :: player where
  "player_a = \<lparr>name = ''A'', team = ''Red FC'', age = 24, rating = 80, position = ''FW'',
     stats = \<lparr>goals = 2, assists = 1, minutes_played = 720, shots_on_target = 10\<rparr>\<rparr>"

definition player_b :: player where
  "player_b = \<lparr>name = ''B'', team = ''Red FC'', age = 29, rating = 90, position = ''MF'',
     stats = \<lparr>goals = 5, assists = 3, minutes_played = 360, shots_on_target = 0\<rparr>\<rparr>"

definition player_c :: player where
  "player_c = \<lparr>name = ''C'', team = ''Blue FC'', age = 31, rating = 70, position = ''DF'',
     stats = \<lparr>goals = 0, assists = 0, minutes_played = 0, shots_on_target = 0\<rparr>\<rparr>"

definition player_s :: player where
  "player_s = \<lparr>name = ''S'', team = ''Solo FC'', age = 22, rating = 60, position = ''FW'',
     stats = \<lparr>goals = 1, assists = 0, minutes_played = 90, shots_on_target = 2\<rparr>\<rparr>"

definition league0 :: state where
  "league0 = \<lparr>teams = [\<lparr>tname = ''Red FC'', league_position = 1, points = 10\<rparr>,
                        \<lparr>tname = ''Blue FC'', league_position = 2, points = 7\<rparr>,
                        \<lparr>tname = ''Solo FC'', league_position = 3, points = 4\<rparr>,
                        \<lparr>tname = ''Ghost FC'', league_position = 4, points = 0\<rparr>],
              players = [player_a, player_b, player_c, veteran, player_s],
              transfer_history = [], match_history = []\<rparr>"

text \<open>A league in which two different players of one team have the same name.\<close>

definition twin_league :: state where
  "twin_league = \<lparr>teams = [\<lparr>tname = ''Twin FC'', league_position = 1, points = 0\<rparr>,
                            \<lparr>tname = ''Ghost FC'', league_position = 2, points = 0\<rparr>],
     players = [\<lparr>name = ''A'', team = ''Twin FC'', age = 20, rating = 70, position = ''FW'',
                  stats = \<lparr>goals = 0, assists = 0, minutes_played = 0, shots_on_target = 0\<rparr>\<rparr>,
                \<lparr>name = ''A'', team = ''Twin FC'', age = 30, rating = 70, position = ''FW'',
                  stats = \<lparr>goals = 0, assists = 0, minutes_played = 0, shots_on_target = 0\<rparr>\<rparr>],
     transfer_history = [], match_history = []\<rparr>"

text \<open>
  Ten draws, and the events of a match of \<^verbatim>\<open>Red FC\<close> (two goals) against
  \<^verbatim>\<open>Blue FC\<close> (one goal) on these draws.
\<close>

definition tape0 :: tape where
  "tape0 k = (if k < 10 then [49, 0, 1, 9, 1, 1, 0, 9, 0, 1] ! k else 0)"

definition match0_events :: "match_event list" where
  "match0_events =
     [\<lparr>minute = 10, etype = ''goal'', eteam = ''Red FC'', scorer = ''B'', assist = ''A''\<rparr>,
      \<lparr>minute = 10, etype = ''goal'', eteam = ''Blue FC'', scorer = ''C'', assist = ''V''\<rparr>,
      \<lparr>minute = 50, etype = ''goal'', eteam = ''Red FC'', scorer = ''A'', assist = ''B''\<rparr>]"

text \<open>The result of that match.\<close>

definition match0 :: match_result where
  "match0 = \<lparr>home_team = ''Red FC'', away_team = ''Blue FC'', home_goals = 2, away_goals = 1,
     events = match0_events, mr_date = ''2024-05-01''\<rparr>"


section \<open>Lookups\<close>

lemma first_index_None: "first_index P xs = None \<longleftrightarrow> List.find P xs = None"
  by (induction xs) auto

lemma first_index_Some:
  "first_index P xs = Some i \<Longrightarrow> i < length xs \<and> P (xs ! i) \<and> List.find P xs = Some (xs ! i)"
  by (induction xs arbitrary: i) (auto split: if_splits)

lemma first_index_exists:
  "\<exists>x \<in> set xs. P x \<Longrightarrow> \<exists>i. first_index P xs = Some i"
  by (induction xs) auto

section \<open>Player valuation\<close>

lemma fmul_commute: "fmul a b = fmul b a"
  by (simp add: fmul_def mult.commute)

lemma calculate_player_value_py_int:
  "calculate_player_value p = py_int (spec_player_value p)"
proof -
  have "fmul (py_float \<bar>26 - age p\<bar>) (round_double (5 / 100))
      = fmul (round_double (5 / 100)) (py_float \<bar>26 - age p\<bar>)"
    by (rule fmul_commute)
  then show ?thesis
    by (simp add: calculate_player_value_def spec_player_value_def Let_def)
qed

text \<open>
  Claim C1, as amended. With \<open>v = base * age_factor + performance\<close>, where
  \<open>base = rating * 2000000\<close>, \<open>age_factor = 1 - 0.05 * |26 - age|\<close> and
  \<open>performance = goals * 500000 + assists * 300000 + (minutes_played / 90) * 100000\<close>
  are computed in floating point, \<^verbatim>\<open>calculate_player_value\<close> returns \<open>v\<close>
  truncated toward zero, as Python's \<^verbatim>\<open>int\<close> does: the floor of \<open>v\<close> when \<open>v\<close> is
  not negative and the ceiling of \<open>v\<close> when it is. Nothing clamps the age factor, and
  the function only reads the player.
\<close>

theorem calculate_player_value_truncates:
  "calculate_player_value p =
     (if spec_player_value p < 0 then \<lceil>spec_player_value p\<rceil> else \<lfloor>spec_player_value p\<rfloor>)"
  by (simp add: calculate_player_value_py_int py_int_def ceiling_def)

text \<open>
  Claim C1 as stated fails: for a player of age 66 with rating 1 and one minute played the
  value is \<open>-17990000 / 9\<close> in exact arithmetic and the double nearest to it in floating
  point, about \<open>-1998888.9\<close>; the code returns \<open>-1998888\<close>, the floor of either is
  \<open>-1998889\<close>.
\<close>

theorem calculate_player_value_not_floor:
  "calculate_player_value veteran = - 1998888 \<and>
   \<lfloor>spec_player_value veteran\<rfloor> = - 1998889 \<and>
   \<lfloor>exact_player_value veteran\<rfloor> = - 1998889"
  by code_simp

text \<open>
  The floating point is part of what the code returns: a player of age 15 with rating 0
  and 207 minutes has the exact value 230000, and the code returns 229999, because
  \<^verbatim>\<open>207 / 90 * 100000\<close> is \<^verbatim>\<open>229999.99999999997\<close>.
\<close>

lemma calculate_player_value_rounding:
  "calculate_player_value
     \<lparr>name = ''Y'', team = ''Blue FC'', age = 15, rating = 0, position = ''MF'',
       stats = \<lparr>goals = 0, assists = 0, minutes_played = 207, shots_on_target = 0\<rparr>\<rparr> = 229999 \<and>
   exact_player_value
     \<lparr>name = ''Y'', team = ''Blue FC'', age = 15, rating = 0, position = ''MF'',
       stats = \<lparr>goals = 0, assists = 0, minutes_played = 207, shots_on_target = 0\<rparr>\<rparr> = 230000"
  by code_simp

section \<open>Transfers\<close>


text \<open>
  Claim C2 at the failing input: the league has the team \<^verbatim>\<open>Red FC\<close>, and the call
  \<^verbatim>\<open>transfer_player("c", "red fc")\<close> succeeds. The fee is the value of the player at the stats and age
  before the transfer, and the record is appended and returned, but the player's team and the
  record's \<^verbatim>\<open>to_team\<close> are the caller's spelling \<^verbatim>\<open>red fc\<close>, not the name
  \<^verbatim>\<open>Red FC\<close> of the team found: the player is on no roster afterwards.
\<close>

theorem transfer_player_keeps_callers_spelling:
  "transfer_player ascii_lower league0 ''c'' ''red fc'' ''2024-05-01'' =
     (Inr \<lparr>tr_player = ''C'', from_team = ''Blue FC'', to_team = ''red fc'',
           fee = calculate_player_value player_c, tr_date = ''2024-05-01''\<rparr>,
      league0\<lparr>players := [player_a, player_b, player_c\<lparr>team := ''red fc''\<rparr>, veteran, player_s],
        transfer_history := [\<lparr>tr_player = ''C'', from_team = ''Blue FC'', to_team = ''red fc'',
           fee = calculate_player_value player_c, tr_date = ''2024-05-01''\<rparr>]\<rparr>) \<and>
   map_option tname (find_team ascii_lower league0 ''red fc'') = Some ''Red FC'' \<and>
   team_players (snd (transfer_player ascii_lower league0 ''c'' ''red fc'' ''2024-05-01'')) ''Red FC''
     = [player_a, player_b]"
  by code_simp

text \<open>
  Claim C5. A call of \<^verbatim>\<open>transfer_player\<close> whose player lookup or team lookup misses
  raises the \<^verbatim>\<open>not found\<close> error and leaves the whole state as it was: every
  player, every team and the transfer history. A call fails in no other way.
\<close>

theorem transfer_player_atomic_on_failure:
  "((find_player lower s pn = None \<or> find_team lower s nt = None) \<longrightarrow>
      (\<exists>m. transfer_player lower s pn nt today = (Inl (NotFound m), s))) \<and>
   (\<forall>e s'. transfer_player lower s pn nt today = (Inl e, s') \<longrightarrow>
      s' = s \<and> (find_player lower s pn = None \<or> find_team lower s nt = None))"
proof (cases "first_index (\<lambda>p. lower (name p) = lower pn) (players s)")
  case None
  then have "find_player lower s pn = None"
    by (simp add: find_player_def first_index_None)
  with None show ?thesis
    by (simp add: transfer_player_def)
next
  case (Some i)
  then have found: "find_player lower s pn \<noteq> None"
    by (auto simp: find_player_def dest: first_index_Some)
  show ?thesis
  proof (cases "find_team lower s nt")
    case None
    with Some show ?thesis by (simp add: transfer_player_def)
  next
    case (Some tm)
    with \<open>first_index _ _ = Some i\<close> found show ?thesis
      by (simp add: transfer_player_def Let_def)
  qed
qed

text \<open>
  The league has no team \<^verbatim>\<open>Green FC\<close> and no player \<^verbatim>\<open>Z\<close>: both calls fail
  and return the league unchanged.
\<close>

theorem transfer_player_atomic_witness:
  "find_team ascii_lower league0 ''Green FC'' = None \<and>
   (\<exists>m. transfer_player ascii_lower league0 ''A'' ''Green FC'' ''2024-05-01'' = (Inl (NotFound m), league0)) \<and>
   transfer_player ascii_lower league0 ''Z'' ''Red FC'' ''2024-05-01'' = (Inl (NotFound ''Player Z''), league0) \<and>
   (find_player ascii_lower league0 ''Z'' = None \<or> find_team ascii_lower league0 ''Red FC'' = None)"
proof -
  have miss: "find_team ascii_lower league0 ''Green FC'' = None"
    by code_simp
  have run: "transfer_player ascii_lower league0 ''Z'' ''Red FC'' ''2024-05-01''
      = (Inl (NotFound ''Player Z''), league0)"
    by code_simp
  have "\<exists>m. transfer_player ascii_lower league0 ''A'' ''Green FC'' ''2024-05-01'' = (Inl (NotFound m), league0)"
    using transfer_player_atomic_on_failure [THEN conjunct1, rule_format, OF disjI2, OF miss] .
  moreover have "find_player ascii_lower league0 ''Z'' = None \<or> find_team ascii_lower league0 ''Red FC'' = None"
    using transfer_player_atomic_on_failure [THEN conjunct2, rule_format, OF run] by simp
  ultimately show ?thesis using miss run by simp
qed

section \<open>Match events\<close>

lemma choice_Inr: "choice xs d = Inr x \<Longrightarrow> x \<in> set xs"
  by (auto simp: choice_def split: if_splits)

lemma randint_range: "a \<le> b \<Longrightarrow> a \<le> randint a b d \<and> randint a b d \<le> b"
proof -
  assume "a \<le> b"
  then have pos: "0 < nat (b - a + 1)" by simp
  have "d mod nat (b - a + 1) < nat (b - a + 1)"
    using pos by (rule mod_less_divisor)
  then show ?thesis by (simp add: randint_def)
qed

text \<open>
  What the redraw loop returns, when it returns: on a roster with a player, a player
  other than the scorer, who is the first assist drawn or a player of the roster.
\<close>

lemma redraw_assist_result:
  assumes run: "redraw_assist tape roster sc ast k = Some r"
  shows "(roster = [] \<and> ast = sc \<and> r = Inl IndexError) \<or>
     (\<exists>a k'. r = Inr (a, k') \<and> a \<noteq> sc \<and> k \<le> k' \<and> (a = ast \<or> a \<in> set roster))"
proof -
  let ?Q = "\<lambda>(tape :: tape) (roster :: player list) (sc :: player) (ast :: player) (k :: nat)
       (r :: error + player \<times> nat).
     (roster = [] \<and> ast = sc \<and> r = Inl IndexError) \<or>
     (\<exists>a k'. r = Inr (a, k') \<and> a \<noteq> sc \<and> k \<le> k' \<and> (a = ast \<or> a \<in> set roster))"
  have "?Q tape roster sc ast k r"
  proof (rule redraw_assist.raw_induct [where P = ?Q, OF _ run])
    fix f :: "tape \<Rightarrow> player list \<Rightarrow> player \<Rightarrow> player \<Rightarrow> nat \<Rightarrow> (error + player \<times> nat) option"
      and tape :: tape and roster :: "player list" and sc ast :: player and k :: nat
      and r :: "error + player \<times> nat"
    assume IH: "\<And>tape roster sc ast k r. f tape roster sc ast k = Some r \<Longrightarrow> ?Q tape roster sc ast k r"
      and body: "(if ast = sc
          then case choice roster (tape k) of Inl e \<Rightarrow> Some (Inl e)
               | Inr a \<Rightarrow> f tape roster sc a (Suc k)
          else Some (Inr (ast, k))) = Some r"
    show "?Q tape roster sc ast k r"
    proof (cases "ast = sc")
      case False
      with body show ?thesis by auto
    next
      case same: True
      show ?thesis
      proof (cases "roster = []")
        case True
        with same body show ?thesis by (simp add: choice_def)
      next
        case False
        let ?a = "roster ! (tape k mod length roster)"
        from False have mem: "?a \<in> set roster" by simp
        from False same body have "f tape roster sc ?a (Suc k) = Some r"
          by (simp add: choice_def)
        from IH [OF this] False mem show ?thesis by auto
      qed
    qed
  qed
  then show ?thesis .
qed

text \<open>
  On a roster whose players are all the same record, the loop that redraws an assist
  equal to the scorer never ends, whatever the draws.
\<close>

lemma redraw_assist_no_other:
  assumes "\<forall>q \<in> set roster. q = p" and "roster \<noteq> []"
  shows "redraw_assist tape roster p p k = None"
proof (cases "redraw_assist tape roster p p k")
  case None
  then show ?thesis .
next
  case (Some r)
  from redraw_assist_result [OF this] assms show ?thesis by auto
qed

lemma side_goals_no_other:
  assumes "\<forall>q \<in> set roster. q = p" and "roster \<noteq> []"
  shows "side_goals tape tm roster (Suc n) k = None"
proof -
  have "choice roster d = Inr p" for d
    using assms by (simp add: choice_def)
  then show ?thesis
    by (simp add: redraw_assist_no_other [OF assms])
qed

lemma generate_match_events_no_other_home:
  assumes "\<forall>q \<in> set (team_players s home). q = p" and "team_players s home \<noteq> []" and "0 < hg"
  shows "generate_match_events s home away hg ag tape = None"
proof -
  from \<open>0 < hg\<close> obtain n where "nat hg = Suc n"
    by (cases "nat hg") auto
  with side_goals_no_other [OF assms(1,2)]
  have "side_goals tape home (team_players s home) (nat hg) 0 = None"
    by (simp only:)
  then show ?thesis
    by (simp add: generate_match_events_def raw_match_events_def)
qed

lemma side_goals_Suc_Inr:
  assumes "side_goals tape tm roster (Suc n) k = Some (Inr (evs, k'))"
  shows "\<exists>sc ast ast' k1 evs'.
     choice roster (tape (k + 1)) = Inr sc \<and> choice roster (tape (k + 2)) = Inr ast \<and>
     redraw_assist tape roster sc ast (k + 3) = Some (Inr (ast', k1)) \<and>
     side_goals tape tm roster n k1 = Some (Inr (evs', k')) \<and>
     evs = \<lparr>minute = randint 1 90 (tape k), etype = ''goal'', eteam = tm,
            scorer = name sc, assist = name ast'\<rparr> # evs'"
  using assms by (auto simp: Let_def split: sum.splits option.splits prod.splits)

text \<open>
  The events of one side: one per goal, each a goal of that side at a minute from 1 to
  90, whose scorer and assist are the names of two different records of the roster.
\<close>

lemma side_goals_events:
  "side_goals tape tm roster n k = Some (Inr (evs, k')) \<Longrightarrow>
     length evs = n \<and>
     (\<forall>e \<in> set evs. 1 \<le> minute e \<and> minute e \<le> 90 \<and> etype e = ''goal'' \<and> eteam e = tm \<and>
        (\<exists>p \<in> set roster. \<exists>q \<in> set roster.
           p \<noteq> q \<and> scorer e = name p \<and> assist e = name q))"
proof (induction n arbitrary: k evs)
  case 0
  then show ?case by simp
next
  case (Suc n)
  from side_goals_Suc_Inr [OF Suc.prems] obtain sc ast ast' k1 evs' where
    sc: "choice roster (tape (k + 1)) = Inr sc" and
    ast: "choice roster (tape (k + 2)) = Inr ast" and
    re: "redraw_assist tape roster sc ast (k + 3) = Some (Inr (ast', k1))" and
    rest: "side_goals tape tm roster n k1 = Some (Inr (evs', k'))" and
    evs: "evs = \<lparr>minute = randint 1 90 (tape k), etype = ''goal'', eteam = tm,
            scorer = name sc, assist = name ast'\<rparr> # evs'"
    by blast
  from redraw_assist_result [OF re] choice_Inr [OF ast]
  have ast': "ast' \<noteq> sc \<and> ast' \<in> set roster" by auto
  have "\<exists>p \<in> set roster. \<exists>q \<in> set roster. p \<noteq> q \<and> name sc = name p \<and> name ast' = name q"
    using choice_Inr [OF sc] ast' by (intro bexI [of _ sc] bexI [of _ ast']) auto
  with Suc.IH [OF rest] evs randint_range [of 1 90 "tape k"] show ?case by simp
qed

text \<open>
  Claim C3 at the failing input: \<^verbatim>\<open>Solo FC\<close> has exactly one player and is given one
  goal. Whatever the random draws, \<^verbatim>\<open>generate_match_events\<close> does not return and
  does not raise: the loop \<^verbatim>\<open>while assist == scorer\<close> runs forever. The code has
  no bound on the retries and no error for a roster that is too small.
\<close>

theorem generate_match_events_single_player_loops:
  "team_players league0 ''Solo FC'' = [player_s] \<and>
   (\<forall>tape away ag. generate_match_events league0 ''Solo FC'' away 1 ag tape = None)"
proof -
  have roster: "team_players league0 ''Solo FC'' = [player_s]"
    by code_simp
  then show ?thesis
    by (simp add: generate_match_events_no_other_home [where p = player_s])
qed

lemma raw_match_events_Inr:
  assumes "raw_match_events s home away hg ag tape = Some (Inr raw)"
  shows "\<exists>hs as k k'.
     side_goals tape home (team_players s home) (nat hg) 0 = Some (Inr (hs, k)) \<and>
     side_goals tape away (team_players s away) (nat ag) k = Some (Inr (as, k')) \<and>
     raw = hs @ as"
  using assms
  by (auto simp: raw_match_events_def Let_def split: sum.splits option.splits prod.splits)

lemma generate_match_events_Inr:
  assumes "generate_match_events s home away hg ag tape = Some (Inr evs)"
  shows "\<exists>raw. raw_match_events s home away hg ag tape = Some (Inr raw) \<and>
     evs = sort_key minute raw"
  using assms
  by (auto simp: generate_match_events_def split: sum.splits option.splits)

lemma redraw_assist_same_draws:
  assumes run: "redraw_assist tape roster sc ast k = Some (Inr (a, k'))"
  shows "k \<le> k' \<and>
     (\<forall>tape'. (\<forall>i<k'. tape' i = tape i) \<longrightarrow>
        redraw_assist tape' roster sc ast k = Some (Inr (a, k')))"
proof -
  let ?Q = "\<lambda>(tape :: tape) (roster :: player list) (sc :: player) (ast :: player) (k :: nat)
       (r :: error + player \<times> nat).
     \<forall>a k'. r = Inr (a, k') \<longrightarrow> k \<le> k' \<and>
       (\<forall>tape'. (\<forall>i<k'. tape' i = tape i) \<longrightarrow> redraw_assist tape' roster sc ast k = Some r)"
  have "?Q tape roster sc ast k (Inr (a, k'))"
  proof (rule redraw_assist.raw_induct [where P = ?Q, OF _ run])
    fix f :: "tape \<Rightarrow> player list \<Rightarrow> player \<Rightarrow> player \<Rightarrow> nat \<Rightarrow> (error + player \<times> nat) option"
      and tape :: tape and roster :: "player list" and sc ast :: player and k :: nat
      and r :: "error + player \<times> nat"
    assume IH: "\<And>tape roster sc ast k r. f tape roster sc ast k = Some r \<Longrightarrow> ?Q tape roster sc ast k r"
      and body: "(if ast = sc
          then case choice roster (tape k) of Inl e \<Rightarrow> Some (Inl e)
               | Inr a \<Rightarrow> f tape roster sc a (Suc k)
          else Some (Inr (ast, k))) = Some r"
    show "?Q tape roster sc ast k r"
    proof (cases "ast = sc")
      case False
      with body have "r = Inr (ast, k)" by simp
      with False show ?thesis by (simp add: redraw_assist.simps)
    next
      case same: True
      show ?thesis
      proof (cases "choice roster (tape k)")
        case (Inl e)
        with same body show ?thesis by auto
      next
        case (Inr a0)
        with same body have "f tape roster sc a0 (Suc k) = Some r" by simp
        from IH [OF this] have step: "?Q tape roster sc a0 (Suc k) r" .
        show ?thesis
        proof (intro allI impI)
          fix a k'
          assume r: "r = Inr (a, k')"
          with step have le: "Suc k \<le> k'"
            and rest: "\<forall>tape'. (\<forall>i<k'. tape' i = tape i) \<longrightarrow>
              redraw_assist tape' roster sc a0 (Suc k) = Some r"
            by blast+
          have "redraw_assist tape' roster sc ast k = Some r" if agree: "\<forall>i<k'. tape' i = tape i" for tape'
          proof -
            from agree le have "tape' k = tape k" by simp
            with Inr same rest agree show ?thesis
              by (subst redraw_assist.simps) simp
          qed
          with le show "k \<le> k' \<and>
            (\<forall>tape'. (\<forall>i<k'. tape' i = tape i) \<longrightarrow> redraw_assist tape' roster sc ast k = Some r)"
            by simp
        qed
      qed
    qed
  qed
  then show ?thesis by simp
qed

lemma side_goals_same_draws:
  "side_goals tape tm roster n k = Some (Inr (evs, k')) \<Longrightarrow>
     k \<le> k' \<and>
     (\<forall>tape'. (\<forall>i<k'. tape' i = tape i) \<longrightarrow>
        side_goals tape' tm roster n k = Some (Inr (evs, k')))"
proof (induction n arbitrary: k evs)
  case 0
  then show ?case by simp
next
  case (Suc n)
  from side_goals_Suc_Inr [OF Suc.prems] obtain sc ast ast' k1 evs' where
    sc: "choice roster (tape (k + 1)) = Inr sc" and
    ast: "choice roster (tape (k + 2)) = Inr ast" and
    re: "redraw_assist tape roster sc ast (k + 3) = Some (Inr (ast', k1))" and
    rest: "side_goals tape tm roster n k1 = Some (Inr (evs', k'))" and
    evs: "evs = \<lparr>minute = randint 1 90 (tape k), etype = ''goal'', eteam = tm,
            scorer = name sc, assist = name ast'\<rparr> # evs'"
    by blast
  from redraw_assist_same_draws [OF re] have le1: "k + 3 \<le> k1"
    and re': "\<And>tape'. (\<forall>i<k1. tape' i = tape i) \<Longrightarrow>
        redraw_assist tape' roster sc ast (k + 3) = Some (Inr (ast', k1))"
    by blast+
  from Suc.IH [OF rest] have le2: "k1 \<le> k'"
    and rest': "\<And>tape'. (\<forall>i<k'. tape' i = tape i) \<Longrightarrow>
        side_goals tape' tm roster n k1 = Some (Inr (evs', k'))"
    by blast+
  have "side_goals tape' tm roster (Suc n) k = Some (Inr (evs, k'))"
    if agree: "\<forall>i<k'. tape' i = tape i" for tape'
  proof -
    from agree le1 le2 have "tape' k = tape k" "tape' (k + 1) = tape (k + 1)"
      "tape' (k + 2) = tape (k + 2)" "\<forall>i<k1. tape' i = tape i"
      by simp_all
    with sc ast re' [of tape'] rest' [OF agree] evs show ?thesis
      by (simp add: Let_def)
  qed
  with le1 le2 show ?case by simp
qed

text \<open>The run of the match of \<^verbatim>\<open>Red FC\<close> against \<^verbatim>\<open>Blue FC\<close>.\<close>

lemma match0_run:
  "generate_match_events league0 ''Red FC'' ''Blue FC'' 2 1 tape0 = Some (Inr match0_events)"
  by code_simp

text \<open>
  Claim C6, as amended. When \<^verbatim>\<open>generate_match_events\<close> returns, and on each side
  that scores no two different players of the roster have the same name, every event
  returned has a scorer different from its assist.
\<close>

theorem generate_match_events_scorer_not_assist:
  assumes run: "generate_match_events s home away hg ag tape = Some (Inr evs)"
    and home: "0 < hg \<longrightarrow> inj_on name (set (team_players s home))"
    and away: "0 < ag \<longrightarrow> inj_on name (set (team_players s away))"
  shows "\<forall>e \<in> set evs. scorer e \<noteq> assist e"
proof
  fix e
  assume e: "e \<in> set evs"
  from generate_match_events_Inr [OF run] obtain raw where
    raw: "raw_match_events s home away hg ag tape = Some (Inr raw)" and
    evs: "evs = sort_key minute raw"
    by blast
  from raw_match_events_Inr [OF raw] obtain hs as k k' where
    hs: "side_goals tape home (team_players s home) (nat hg) 0 = Some (Inr (hs, k))" and
    as: "side_goals tape away (team_players s away) (nat ag) k = Some (Inr (as, k'))" and
    app: "raw = hs @ as"
    by blast
  from e evs app have "e \<in> set hs \<or> e \<in> set as" by simp
  then show "scorer e \<noteq> assist e"
  proof
    assume mem: "e \<in> set hs"
    with side_goals_events [OF hs] have "0 < nat hg" by (cases hs) auto
    with home have inj: "inj_on name (set (team_players s home))" by simp
    from side_goals_events [OF hs] mem obtain p q where
      "p \<in> set (team_players s home)" "q \<in> set (team_players s home)" "p \<noteq> q"
      "scorer e = name p" "assist e = name q"
      by blast
    with inj show ?thesis by (auto dest: inj_onD)
  next
    assume mem: "e \<in> set as"
    with side_goals_events [OF as] have "0 < nat ag" by (cases as) auto
    with away have inj: "inj_on name (set (team_players s away))" by simp
    from side_goals_events [OF as] mem obtain p q where
      "p \<in> set (team_players s away)" "q \<in> set (team_players s away)" "p \<noteq> q"
      "scorer e = name p" "assist e = name q"
      by blast
    with inj show ?thesis by (auto dest: inj_onD)
  qed
qed

text \<open>
  \<^verbatim>\<open>Red FC\<close> has the players \<^verbatim>\<open>A\<close> and \<^verbatim>\<open>B\<close>, \<^verbatim>\<open>Blue FC\<close> has
  \<^verbatim>\<open>C\<close> and \<^verbatim>\<open>V\<close>; in the three events of the run scorer and assist differ.
\<close>

theorem generate_match_events_scorer_not_assist_witness:
  "generate_match_events league0 ''Red FC'' ''Blue FC'' 2 1 tape0 = Some (Inr match0_events) \<and>
   inj_on name (set (team_players league0 ''Red FC'')) \<and>
   inj_on name (set (team_players league0 ''Blue FC'')) \<and>
   list_all (\<lambda>e. scorer e \<noteq> assist e) match0_events"
proof -
  have red: "team_players league0 ''Red FC'' = [player_a, player_b]"
    by code_simp
  have blue: "team_players league0 ''Blue FC'' = [player_c, veteran]"
    by code_simp
  have home: "inj_on name (set (team_players league0 ''Red FC''))"
    by (simp add: red player_a_def player_b_def)
  have away: "inj_on name (set (team_players league0 ''Blue FC''))"
    by (simp add: blue player_c_def veteran_def)
  from generate_match_events_scorer_not_assist [OF match0_run] home away
  have "\<forall>e \<in> set match0_events. scorer e \<noteq> assist e"
    by blast
  then have "list_all (\<lambda>e. scorer e \<noteq> assist e) match0_events"
    by (simp add: list_all_iff)
  with match0_run home away show ?thesis by simp
qed

text \<open>
  Claim C6 as stated fails. The loop compares the two player dictionaries, the event
  stores their names: \<^verbatim>\<open>Twin FC\<close> has two distinct players, of age 20 and 30, both
  named \<^verbatim>\<open>A\<close>; the draws pick the first as scorer and the second as assist, and
  the event has \<^verbatim>\<open>scorer == assist\<close>.
\<close>

theorem generate_match_events_same_name_counterexample:
  "card (set (team_players twin_league ''Twin FC'')) = 2 \<and>
   generate_match_events twin_league ''Twin FC'' ''Ghost FC'' 1 0 (\<lambda>k. if k = 2 then 1 else 0)
     = Some (Inr [\<lparr>minute = 1, etype = ''goal'', eteam = ''Twin FC'',
                    scorer = ''A'', assist = ''A''\<rparr>])"
  by code_simp

text \<open>
  Claim C7. The sequence that \<^verbatim>\<open>generate_match_events\<close> returns is the list of the
  home side's events followed by the away side's events, each in the order generated,
  sorted by minute: it is sorted by minute, not decreasing; it has the same events; the
  events of any one minute stand in the order they were generated in (the sort is
  stable); every minute is from 1 to 90; and a random source that gives the same draws
  as far as the run read them gives the same sequence again.
\<close>

theorem generate_match_events_sorted_stable:
  assumes run: "generate_match_events s home away hg ag tape = Some (Inr evs)"
  shows "\<exists>hs as k k'.
     side_goals tape home (team_players s home) (nat hg) 0 = Some (Inr (hs, k)) \<and>
     side_goals tape away (team_players s away) (nat ag) k = Some (Inr (as, k')) \<and>
     length hs = nat hg \<and> length as = nat ag \<and>
     sorted (map minute evs) \<and>
     mset evs = mset (hs @ as) \<and>
     (\<forall>m. filter (\<lambda>e. minute e = m) evs = filter (\<lambda>e. minute e = m) (hs @ as)) \<and>
     (\<forall>e \<in> set evs. 1 \<le> minute e \<and> minute e \<le> 90) \<and>
     (\<forall>tape'. (\<forall>i<k'. tape' i = tape i) \<longrightarrow>
        generate_match_events s home away hg ag tape' = Some (Inr evs))"
proof -
  from generate_match_events_Inr [OF run] obtain raw where
    raw: "raw_match_events s home away hg ag tape = Some (Inr raw)" and
    evs: "evs = sort_key minute raw"
    by blast
  from raw_match_events_Inr [OF raw] obtain hs as k k' where
    hs: "side_goals tape home (team_players s home) (nat hg) 0 = Some (Inr (hs, k))" and
    as: "side_goals tape away (team_players s away) (nat ag) k = Some (Inr (as, k'))" and
    app: "raw = hs @ as"
    by blast
  note H = side_goals_events [OF hs] and A = side_goals_events [OF as]
  have sorted: "sorted (map minute evs)"
    by (simp add: evs)
  have perm: "mset evs = mset (hs @ as)"
    by (simp add: evs app)
  have stable: "\<forall>m. filter (\<lambda>e. minute e = m) evs = filter (\<lambda>e. minute e = m) (hs @ as)"
    unfolding evs app by (simp only: sort_key_stable) simp
  have range: "\<forall>e \<in> set evs. 1 \<le> minute e \<and> minute e \<le> 90"
    using H A by (auto simp: evs app)
  have again: "generate_match_events s home away hg ag tape' = Some (Inr evs)"
    if agree: "\<forall>i<k'. tape' i = tape i" for tape'
  proof -
    from side_goals_same_draws [OF as] have "k \<le> k'"
      and as': "side_goals tape' away (team_players s away) (nat ag) k = Some (Inr (as, k'))"
      using agree by blast+
    with side_goals_same_draws [OF hs] agree
    have "side_goals tape' home (team_players s home) (nat hg) 0 = Some (Inr (hs, k))"
      by simp
    with as' show ?thesis
      by (simp add: generate_match_events_def raw_match_events_def evs app)
  qed
  from hs as H A sorted perm stable range again show ?thesis
    by blast
qed

text \<open>
  In the run, the second home goal and the away goal are both at minute 10 and come
  out in this order, before the first home goal at minute 50.
\<close>

theorem generate_match_events_sorted_stable_witness:
  "generate_match_events league0 ''Red FC'' ''Blue FC'' 2 1 tape0 = Some (Inr match0_events) \<and>
   sorted (map minute match0_events) \<and>
   list_all (\<lambda>e. 1 \<le> minute e \<and> minute e \<le> 90) match0_events \<and>
   map eteam (filter (\<lambda>e. minute e = 10) match0_events) = [''Red FC'', ''Blue FC'']"
proof -
  from generate_match_events_sorted_stable [OF match0_run]
  have "sorted (map minute match0_events)"
    and "\<forall>e \<in> set match0_events. 1 \<le> minute e \<and> minute e \<le> 90"
    by blast+
  then have "sorted (map minute match0_events)"
    and "list_all (\<lambda>e. 1 \<le> minute e \<and> minute e \<le> 90) match0_events"
    by (simp_all add: list_all_iff)
  moreover have "map eteam (filter (\<lambda>e. minute e = 10) match0_events) = [''Red FC'', ''Blue FC'']"
    by code_simp
  ultimately show ?thesis using match0_run by simp
qed

section \<open>Statistics after a match\<close>

lemma sum_list_map_update:
  fixes f :: "'a \<Rightarrow> int"
  shows "i < length xs \<Longrightarrow>
    sum_list (map f (xs[i := y])) = sum_list (map f xs) - f (xs ! i) + f y"
  by (induction xs arbitrary: i) (auto split: nat.splits)

lemma add_goal_at:
  assumes "i < length ps"
  shows "total_goals (ps[i := add_goal (ps ! i)]) = total_goals ps + 1"
    and "total_assists (ps[i := add_goal (ps ! i)]) = total_assists ps"
    and "map clear_tally (ps[i := add_goal (ps ! i)]) = map clear_tally ps"
    and "map name (ps[i := add_goal (ps ! i)]) = map name ps"
proof -
  show "total_goals (ps[i := add_goal (ps ! i)]) = total_goals ps + 1"
    using assms by (simp add: total_goals_def sum_list_map_update add_goal_def)
  show "total_assists (ps[i := add_goal (ps ! i)]) = total_assists ps"
    using assms by (simp add: total_assists_def sum_list_map_update add_goal_def)
  show "map clear_tally (ps[i := add_goal (ps ! i)]) = map clear_tally ps"
    using assms by (simp add: map_update list_update_same_conv add_goal_def clear_tally_def)
  show "map name (ps[i := add_goal (ps ! i)]) = map name ps"
    using assms by (simp add: map_update list_update_same_conv add_goal_def)
qed

lemma add_assist_at:
  assumes "i < length ps"
  shows "total_goals (ps[i := add_assist (ps ! i)]) = total_goals ps"
    and "total_assists (ps[i := add_assist (ps ! i)]) = total_assists ps + 1"
    and "map clear_tally (ps[i := add_assist (ps ! i)]) = map clear_tally ps"
    and "map name (ps[i := add_assist (ps ! i)]) = map name ps"
proof -
  show "total_goals (ps[i := add_assist (ps ! i)]) = total_goals ps"
    using assms by (simp add: total_goals_def sum_list_map_update add_assist_def)
  show "total_assists (ps[i := add_assist (ps ! i)]) = total_assists ps + 1"
    using assms by (simp add: total_assists_def sum_list_map_update add_assist_def)
  show "map clear_tally (ps[i := add_assist (ps ! i)]) = map clear_tally ps"
    using assms by (simp add: map_update list_update_same_conv add_assist_def clear_tally_def)
  show "map name (ps[i := add_assist (ps ! i)]) = map name ps"
    using assms by (simp add: map_update list_update_same_conv add_assist_def)
qed

lemma update_stats_loop_frame:
  "map clear_tally (snd (update_stats_loop ps es)) = map clear_tally ps"
proof (induction es arbitrary: ps)
  case Nil
  show ?case by simp
next
  case (Cons e es)
  show ?case
  proof (cases "etype e = ''goal''")
    case False
    with Cons.IH show ?thesis by simp
  next
    case goal: True
    show ?thesis
    proof (cases "first_index (\<lambda>p. name p = scorer e) ps")
      case None
      with goal show ?thesis by simp
    next
      case (Some i)
      let ?ps1 = "ps[i := add_goal (ps ! i)]"
      from first_index_Some [OF Some] have i: "i < length ps" by simp
      show ?thesis
      proof (cases "first_index (\<lambda>p. name p = assist e) ?ps1")
        case None
        with goal Some add_goal_at(3) [OF i] show ?thesis by (simp add: Let_def)
      next
        case (Some j)
        from first_index_Some [OF Some] have j: "j < length ?ps1" by simp
        from goal \<open>first_index _ ps = Some i\<close> Some
        have "update_stats_loop ps (e # es)
            = update_stats_loop (?ps1[j := add_assist (?ps1 ! j)]) es"
          by (simp add: Let_def)
        with Cons.IH [of "?ps1[j := add_assist (?ps1 ! j)]"]
          add_assist_at(3) [OF j] add_goal_at(3) [OF i]
        show ?thesis by simp
      qed
    qed
  qed
qed

lemma update_stats_loop_totals:
  assumes "\<forall>e \<in> set (goal_events es). scorer e \<in> name ` set ps \<and> assist e \<in> name ` set ps"
  shows "\<exists>ps'. update_stats_loop ps es = (Inr (), ps') \<and>
     total_goals ps' = total_goals ps + int (length (goal_events es)) \<and>
     total_assists ps' = total_assists ps + int (length (goal_events es))"
  using assms
proof (induction es arbitrary: ps)
  case Nil
  show ?case by (simp add: goal_events_def)
next
  case (Cons e es)
  show ?case
  proof (cases "etype e = ''goal''")
    case False
    with Cons.IH [of ps] Cons.prems show ?thesis by (simp add: goal_events_def)
  next
    case goal: True
    with Cons.prems have sc: "\<exists>p \<in> set ps. name p = scorer e"
      and ast: "assist e \<in> name ` set ps"
      and rest: "\<forall>e \<in> set (goal_events es). scorer e \<in> name ` set ps \<and> assist e \<in> name ` set ps"
      by (auto simp: goal_events_def)
    from first_index_exists [OF sc] obtain i where
      i: "first_index (\<lambda>p. name p = scorer e) ps = Some i" by blast
    let ?ps1 = "ps[i := add_goal (ps ! i)]"
    from first_index_Some [OF i] have il: "i < length ps" by simp
    note g = add_goal_at [OF il]
    from ast g(4) have "\<exists>p \<in> set ?ps1. name p = assist e"
      by (metis (no_types, lifting) image_iff list.set_map)
    from first_index_exists [OF this] obtain j where
      j: "first_index (\<lambda>p. name p = assist e) ?ps1 = Some j" by blast
    let ?ps2 = "?ps1[j := add_assist (?ps1 ! j)]"
    from first_index_Some [OF j] have jl: "j < length ?ps1" by simp
    note a = add_assist_at [OF jl]
    have names: "name ` set ?ps2 = name ` set ps"
      using a(4) g(4) by (metis list.set_map)
    with rest have "\<forall>e \<in> set (goal_events es). scorer e \<in> name ` set ?ps2 \<and> assist e \<in> name ` set ?ps2"
      by simp
    from Cons.IH [OF this] obtain ps' where
      "update_stats_loop ?ps2 es = (Inr (), ps')"
      "total_goals ps' = total_goals ?ps2 + int (length (goal_events es))"
      "total_assists ps' = total_assists ?ps2 + int (length (goal_events es))"
      by blast
    with goal i j a(1,2) g(1,2) show ?thesis
      by (simp add: Let_def goal_events_def)
  qed
qed

lemma simulate_match_writes:
  assumes "simulate_match lower s hn an zh za tape today = Some (res, s2)"
  shows "s2 = s \<or>
    (\<exists>r u. update_stats (s\<lparr>match_history := match_history s @ [r]\<rparr>) r = (u, s2))"
  using assms
  by (fastforce simp: simulate_match_def Let_def split: option.splits sum.splits prod.splits)

lemma update_stats_frame:
  "map clear_tally (players (snd (update_stats s r))) = map clear_tally (players s) \<and>
   teams (snd (update_stats s r)) = teams s \<and>
   transfer_history (snd (update_stats s r)) = transfer_history s \<and>
   match_history (snd (update_stats s r)) = match_history s"
  using update_stats_loop_frame [of "players s" "events r"]
  by (cases "update_stats_loop (players s) (events r)") (simp add: update_stats_def)

text \<open>
  Claim C8. When every goal event of a match result names a scorer and an assist that
  some player of the repository has as name, \<^verbatim>\<open>update_stats\<close> returns without an
  error, the sum of the \<^verbatim>\<open>goals\<close> fields of all players grows by the number of
  home goal events plus the number of away goal events, and so does the sum of the
  \<^verbatim>\<open>assists\<close> fields; no other field of a player, no team and no history
  changes. \<^verbatim>\<open>simulate_match\<close> leaves the state as it was or as
  \<^verbatim>\<open>update_stats\<close> left it, after the result was appended to the match history; the
  other operations of the engine return no state at all.
\<close>

theorem update_stats_totals:
  assumes resolvable:
    "\<forall>e \<in> set (goal_events (events r)).
       (\<exists>p \<in> set (players s). name p = scorer e) \<and> (\<exists>p \<in> set (players s). name p = assist e)"
  shows "(\<exists>s'. update_stats s r = (Inr (), s') \<and>
       total_goals (players s') = total_goals (players s)
          + int (length (home_goal_events r)) + int (length (away_goal_events r)) \<and>
       total_assists (players s') = total_assists (players s)
          + int (length (home_goal_events r)) + int (length (away_goal_events r)) \<and>
       map clear_tally (players s') = map clear_tally (players s) \<and>
       teams s' = teams s \<and> transfer_history s' = transfer_history s \<and>
       match_history s' = match_history s) \<and>
     (\<forall>hn an zh za tape today res s2.
        simulate_match lower s hn an zh za tape today = Some (res, s2) \<longrightarrow>
          s2 = s \<or>
          (\<exists>r' u. update_stats (s\<lparr>match_history := match_history s @ [r']\<rparr>) r' = (u, s2)))"
proof -
  have count: "length (goal_events (events r))
      = length (home_goal_events r) + length (away_goal_events r)"
    unfolding home_goal_events_def away_goal_events_def
    by (rule sum_length_filter_compl [symmetric])
  from resolvable
  have "\<forall>e \<in> set (goal_events (events r)).
      scorer e \<in> name ` set (players s) \<and> assist e \<in> name ` set (players s)"
    by force
  from update_stats_loop_totals [OF this] obtain ps' where
    loop: "update_stats_loop (players s) (events r) = (Inr (), ps')" and
    g: "total_goals ps' = total_goals (players s) + int (length (goal_events (events r)))" and
    a: "total_assists ps' = total_assists (players s) + int (length (goal_events (events r)))"
    by blast
  from loop have run: "update_stats s r = (Inr (), s\<lparr>players := ps'\<rparr>)"
    by (simp add: update_stats_def)
  from update_stats_frame [of s r] run
  have frame: "map clear_tally ps' = map clear_tally (players s)"
    by simp
  from run g a count frame
  have "\<exists>s'. update_stats s r = (Inr (), s') \<and>
       total_goals (players s') = total_goals (players s)
          + int (length (home_goal_events r)) + int (length (away_goal_events r)) \<and>
       total_assists (players s') = total_assists (players s)
          + int (length (home_goal_events r)) + int (length (away_goal_events r)) \<and>
       map clear_tally (players s') = map clear_tally (players s) \<and>
       teams s' = teams s \<and> transfer_history s' = transfer_history s \<and>
       match_history s' = match_history s"
    by simp
  then show ?thesis
    using simulate_match_writes [where lower = lower and s = s] by blast
qed

text \<open>
  The three goal events of the match above name \<^verbatim>\<open>A\<close>, \<^verbatim>\<open>B\<close>, \<^verbatim>\<open>C\<close> and
  \<^verbatim>\<open>V\<close>: the goals of the league go from 8 to 11, the assists from 4 to 7, and
  the simulated match leaves the state that \<^verbatim>\<open>update_stats\<close> computes.
\<close>

theorem update_stats_totals_witness:
  "fst (update_stats league0 match0) = Inr () \<and>
   total_goals (players league0) = 8 \<and>
   total_goals (players (snd (update_stats league0 match0))) = 11 \<and>
   total_assists (players league0) = 4 \<and>
   total_assists (players (snd (update_stats league0 match0))) = 7 \<and>
   simulate_match ascii_lower league0 ''red fc'' ''BLUE FC'' (- 5 / 2) (- 1 / 2) tape0 ''2024-05-01''
     = Some (Inr match0,
         snd (update_stats (league0\<lparr>match_history := match_history league0 @ [match0]\<rparr>) match0)) \<and>
   (snd (update_stats (league0\<lparr>match_history := match_history league0 @ [match0]\<rparr>) match0)
      = league0 \<or>
    (\<exists>r' u. update_stats (league0\<lparr>match_history := match_history league0 @ [r']\<rparr>) r'
       = (u, snd (update_stats (league0\<lparr>match_history := match_history league0 @ [match0]\<rparr>)
                   match0))))"
proof -
  have "list_all (\<lambda>e. list_ex (\<lambda>p. name p = scorer e) (players league0) \<and>
      list_ex (\<lambda>p. name p = assist e) (players league0)) (goal_events (events match0))"
    by code_simp
  then have resolvable: "\<forall>e \<in> set (goal_events (events match0)).
      (\<exists>p \<in> set (players league0). name p = scorer e) \<and>
      (\<exists>p \<in> set (players league0). name p = assist e)"
    by (simp add: list_all_iff list_ex_iff)
  have counts: "length (home_goal_events match0) = 2" "length (away_goal_events match0) = 1"
    "total_goals (players league0) = 8" "total_assists (players league0) = 4"
    by code_simp+
  have run: "simulate_match ascii_lower league0 ''red fc'' ''BLUE FC'' (- 5 / 2) (- 1 / 2) tape0
      ''2024-05-01''
     = Some (Inr match0,
         snd (update_stats (league0\<lparr>match_history := match_history league0 @ [match0]\<rparr>) match0))"
    by code_simp
  from update_stats_totals [OF resolvable, THEN conjunct1] counts
  have "fst (update_stats league0 match0) = Inr () \<and>
    total_goals (players (snd (update_stats league0 match0))) = 11 \<and>
    total_assists (players (snd (update_stats league0 match0))) = 7"
    by auto
  moreover note update_stats_totals [OF resolvable, THEN conjunct2, rule_format, OF run]
  ultimately show ?thesis using counts run by simp
qed

section \<open>Analytics\<close>

text \<open>
  What \<^verbatim>\<open>calculate_player_efficiency\<close> computes: the \<^verbatim>\<open>not found\<close> error when no
  player has the name (letter case apart); for the player found, the error of the
  division when \<^verbatim>\<open>minutes_played\<close> is 0, and otherwise
  \<^verbatim>\<open>goals / minutes_played * 90\<close>, the same for the assists, the sum of goals and
  assists, and \<^verbatim>\<open>goals / shots_on_target * 100\<close> when \<^verbatim>\<open>shots_on_target\<close> is
  positive and 0 when it is not, the quotients and products in floating point.
\<close>

lemma calculate_player_efficiency_cases:
  "calculate_player_efficiency lower s n =
     (case find_player lower s n of
        None \<Rightarrow> Inl (NotFound (''Player '' @ n))
      | Some p \<Rightarrow>
          if minutes_played (stats p) = 0 then Inl ZeroDivisionError
          else Inr \<lparr>goals_per_90 =
                      fmul (fdiv (rat_of_int (goals (stats p)))
                              (rat_of_int (minutes_played (stats p)))) (py_float 90),
                    assists_per_90 =
                      fmul (fdiv (rat_of_int (assists (stats p)))
                              (rat_of_int (minutes_played (stats p)))) (py_float 90),
                    goal_contributions = goals (stats p) + assists (stats p),
                    shots_conversion =
                      (if shots_on_target (stats p) > 0
                       then fmul (fdiv (rat_of_int (goals (stats p)))
                                    (rat_of_int (shots_on_target (stats p)))) (py_float 100)
                       else 0)\<rparr>)"
  by (simp add: calculate_player_efficiency_def and_then_def py_truediv_def Let_def
      split: option.splits)

text \<open>
  In the small league: nobody is called \<^verbatim>\<open>Z\<close>, \<^verbatim>\<open>A\<close> has 2 goals from 10 shots
  on target in 720 minutes, and \<^verbatim>\<open>B\<close> has no shot on target.
\<close>

lemma calculate_player_efficiency_examples:
  "calculate_player_efficiency ascii_lower league0 ''Z'' = Inl (NotFound ''Player Z'') \<and>
   calculate_player_efficiency ascii_lower league0 ''a'' =
     Inr \<lparr>goals_per_90 = 1 / 4, assists_per_90 = 1 / 8, goal_contributions = 3,
          shots_conversion = 20\<rparr> \<and>
   calculate_player_efficiency ascii_lower league0 ''B'' =
     Inr \<lparr>goals_per_90 = 5 / 4, assists_per_90 = 3 / 4, goal_contributions = 8,
          shots_conversion = 0\<rparr>"
  by code_simp

text \<open>
  Claim C9 at the failing input: the player \<^verbatim>\<open>C\<close> of the league has
  \<^verbatim>\<open>minutes_played\<close> 0. \<^verbatim>\<open>calculate_player_efficiency\<close> has no check of the
  minutes: the error that comes out is the \<^verbatim>\<open>ZeroDivisionError\<close> that the division
  \<^verbatim>\<open>stats['goals'] / minutes\<close> raises itself, and it is not of a class that the
  handler of \<^verbatim>\<open>main\<close> catches, as the \<^verbatim>\<open>not found\<close> error of the same function
  is. The division by \<^verbatim>\<open>shots_on_target\<close>, in the same dictionary, is guarded: for
  \<^verbatim>\<open>B\<close>, with no shot on target, the conversion is 0. No value is returned at 0
  minutes, so no NaN and no infinity.
\<close>

theorem calculate_player_efficiency_zero_minutes_unguarded:
  "find_player ascii_lower league0 ''c'' = Some player_c \<and>
   minutes_played (stats player_c) = 0 \<and>
   py_truediv (goals (stats player_c)) (minutes_played (stats player_c))
     = Inl ZeroDivisionError \<and>
   calculate_player_efficiency ascii_lower league0 ''c'' = Inl ZeroDivisionError \<and>
   \<not> main_catches ZeroDivisionError \<and>
   calculate_player_efficiency ascii_lower league0 ''Z'' = Inl (NotFound ''Player Z'') \<and>
   main_catches (NotFound ''Player Z'') \<and>
   shots_on_target (stats player_b) = 0 \<and>
   map_sum id shots_conversion (calculate_player_efficiency ascii_lower league0 ''B'') = Inr 0"
  by code_simp

text \<open>
  The team strength: the error for a team without players, else the mean of the ratings
  of the roster, as the double nearest to it.
\<close>

lemma calculate_team_strength_cases:
  "calculate_team_strength s t =
     (if team_players s t = [] then Inl (NoPlayers t)
      else Inr (fdiv (rat_of_int (sum_list (map rating (team_players s t))))
                  (rat_of_int (int (length (team_players s t))))))"
  by (simp add: calculate_team_strength_def py_truediv_def Let_def)

lemma generate_team_report_not_found:
  "find_team lower s n = None \<Longrightarrow> generate_team_report lower s n = Inl (NotFound (''Team '' @ n))"
  by (simp add: generate_team_report_def)

lemma generate_team_report_empty_roster:
  "find_team lower s n = Some tm \<Longrightarrow> team_players s (tname tm) = [] \<Longrightarrow>
     generate_team_report lower s n = Inl MaxEmptySequence"
  by (simp add: generate_team_report_def py_max_def and_then_def)

text \<open>
  Claim C4 at the failing input: \<^verbatim>\<open>Ghost FC\<close> is a team of the league and no player
  has it as team. \<^verbatim>\<open>calculate_team_strength\<close> raises its own error for the empty
  roster, and \<^verbatim>\<open>generate_team_report\<close> raises the \<^verbatim>\<open>not found\<close> error for a
  name that no team has; but for \<^verbatim>\<open>Ghost FC\<close> the report has no guard, and the error
  that comes out is the one the builtin \<^verbatim>\<open>max\<close> raises on an empty sequence. On the
  roster of \<^verbatim>\<open>Red FC\<close>, rated 80 and 90, the strength is 85 and the top scorer of
  the report is \<^verbatim>\<open>B\<close>.
\<close>

theorem generate_team_report_empty_roster_unguarded:
  "team_players league0 ''Ghost FC'' = [] \<and>
   calculate_team_strength league0 ''Ghost FC'' = Inl (NoPlayers ''Ghost FC'') \<and>
   generate_team_report ascii_lower league0 ''Ghost FC'' = Inl MaxEmptySequence \<and>
   generate_team_report ascii_lower league0 ''Green FC'' = Inl (NotFound ''Team Green FC'') \<and>
   calculate_team_strength league0 ''Red FC'' = Inr 85 \<and>
   map_sum id (\<lambda>r. (name (top_scorer r), squad_rating_average r))
     (generate_team_report ascii_lower league0 ''red fc'') = Inr (''B'', 85)"
  by code_simp

section \<open>Rosters and letter case\<close>


lemma find_team_players_update [simp]:
  "find_team lower (s\<lparr>players := ps\<rparr>) n = find_team lower s n"
  by (simp add: find_team_def)



end
